theory Spec2Isabelle
  imports Complex_Main
begin

section \<open>Python values and exceptions\<close>

text \<open>
  The values that \<^verbatim>\<open>json.loads\<close> produces and \<^verbatim>\<open>json.dumps\<close> consumes. A Python
  \<^verbatim>\<open>dict\<close> is an association list in insertion order (its keys are distinct);
  \<^verbatim>\<open>None\<close> is \<open>JNull\<close>. Floats are only stored and compared, never computed with.
\<close>

datatype json =
    JNull
  | JBool bool
  | JInt int
  | JFloat real
  | JStr string
  | JList "json list"
  | JObj "(string \<times> json) list"

text \<open>
  The exception classes that occur in \<^verbatim>\<open>llmbo.py\<close>. \<open>ClientError\<close> carries the error
  code of the response (\<^verbatim>\<open>e.response["Error"]["Code"]\<close>). \<open>ValidationError\<close> is pydantic's,
  a subclass of \<^verbatim>\<open>ValueError\<close>; \<open>JSONDecodeError\<close> is \<^verbatim>\<open>json\<close>'s, a subclass of
  \<^verbatim>\<open>ValueError\<close> as well. None of them is a subclass of \<^verbatim>\<open>TypeError\<close>, \<^verbatim>\<open>KeyError\<close>
  or \<^verbatim>\<open>IndexError\<close>, which are the classes the handlers of the source name.
  Calls to the logger are not modelled.
\<close>

datatype exn =
    KeyError
  | IndexError
  | TypeError
  | ValueError
  | RuntimeError
  | AttributeError
  | FileNotFoundError
  | FileExistsError
  | ValidationError
  | JSONDecodeError
  | ClientError string

text \<open>\<^verbatim>\<open>d[k]\<close> on a dict.\<close>

definition dict_get :: "(string \<times> json) list \<Rightarrow> string \<Rightarrow> exn + json" where
  "dict_get d k = (case map_of d k of None \<Rightarrow> Inl KeyError | Some v \<Rightarrow> Inr v)"

text \<open>\<^verbatim>\<open>v[k]\<close> with a string key on any value: only a dict can be subscripted so.\<close>

fun subscript :: "json \<Rightarrow> string \<Rightarrow> exn + json" where
  "subscript (JObj d) k = dict_get d k"
| "subscript v k = Inl TypeError"

text \<open>\<^verbatim>\<open>len(v)\<close>: lists, strings and dicts have a length.\<close>

fun py_len :: "json \<Rightarrow> exn + nat" where
  "py_len (JList xs) = Inr (length xs)"
| "py_len (JStr s) = Inr (length s)"
| "py_len (JObj d) = Inr (length d)"
| "py_len v = Inl TypeError"

text \<open>
  \<^verbatim>\<open>v[0]\<close>: the first element of a list, the first character of a string; a dict with
  string keys has no key \<^verbatim>\<open>0\<close>.
\<close>

fun item0 :: "json \<Rightarrow> exn + json" where
  "item0 (JList []) = Inl IndexError"
| "item0 (JList (x # xs)) = Inr x"
| "item0 (JStr []) = Inl IndexError"
| "item0 (JStr (c # cs)) = Inr (JStr [c])"
| "item0 (JObj d) = Inl KeyError"
| "item0 v = Inl TypeError"

section \<open>The caller's schema\<close>

text \<open>
  \<^verbatim>\<open>output_model: Type[BaseModel]\<close> is a pydantic class, which is not part of the
  repository: what the code uses of it is its \<^verbatim>\<open>__name__\<close>, its \<^verbatim>\<open>__doc__\<close>, its
  \<^verbatim>\<open>model_json_schema()\<close> and its constructor called with keyword arguments, which
  returns an instance or raises.
\<close>

record 'a output_model =
  schema_name :: string
  schema_doc :: "string option"
  model_json_schema :: json
  construct :: "(string \<times> json) list \<Rightarrow> exn + 'a"

text \<open>
  \<^verbatim>\<open>self.output_model(**payload)\<close>: unpacking with \<^verbatim>\<open>**\<close> raises \<^verbatim>\<open>TypeError\<close> unless the
  payload is a mapping.
\<close>

fun call_kwargs :: "'a output_model \<Rightarrow> json \<Rightarrow> exn + 'a" where
  "call_kwargs om (JObj kw) = construct om kw"
| "call_kwargs om v = Inl TypeError"

text \<open>
  How pydantic's lax mode reads a string given for an integer field: here an optional
  minus sign followed by decimal digits. Other spellings that the library may accept
  (surrounding blanks, underscores between digits) are not modelled.
\<close>

definition digit_of :: "char \<Rightarrow> int option" where
  "digit_of c =
     (if (48::nat) \<le> of_char c \<and> of_char c \<le> (57::nat) then Some (int (of_char c) - 48)
      else None)"

fun digits_value :: "int \<Rightarrow> string \<Rightarrow> int option" where
  "digits_value acc [] = Some acc"
| "digits_value acc (c # cs) =
     (case digit_of c of None \<Rightarrow> None | Some d \<Rightarrow> digits_value (10 * acc + d) cs)"

definition str_as_int :: "string \<Rightarrow> int option" where
  "str_as_int s =
     (case s of
        [] \<Rightarrow> None
      | c # cs \<Rightarrow>
          if c = CHR ''-'' then
            (if cs = [] then None else map_option uminus (digits_value 0 cs))
          else digits_value 0 s)"

text \<open>
  \<^verbatim>\<open>class NameAgeModel(BaseModel): name: str; age: int\<close>, the schema of the source.
  Its constructor follows pydantic: a missing field or a value that cannot be read at
  the type of the field raises \<^verbatim>\<open>ValidationError\<close>, and keys that are no field are
  ignored. The name must be a string. In lax mode, the default, the age may be an
  integer, a boolean (read as 1 or 0), a float without fractional part, or a string that
  reads as an integer.
\<close>

record NameAgeModel =
  name :: string
  age :: int

definition NameAgeModel_init :: "(string \<times> json) list \<Rightarrow> exn + NameAgeModel" where
  "NameAgeModel_init kw =
     (case map_of kw ''name'' of
        Some (JStr n) \<Rightarrow>
          (case map_of kw ''age'' of
             Some (JInt a) \<Rightarrow> Inr \<lparr>name = n, age = a\<rparr>
           | Some (JBool b) \<Rightarrow> Inr \<lparr>name = n, age = (if b then 1 else 0)\<rparr>
           | Some (JFloat r) \<Rightarrow>
               if r = of_int \<lfloor>r\<rfloor> then Inr \<lparr>name = n, age = \<lfloor>r\<rfloor>\<rparr>
               else Inl ValidationError
           | Some (JStr t) \<Rightarrow>
               (case str_as_int t of
                  None \<Rightarrow> Inl ValidationError
                | Some a \<Rightarrow> Inr \<lparr>name = n, age = a\<rparr>)
           | _ \<Rightarrow> Inl ValidationError)
      | _ \<Rightarrow> Inl ValidationError)"

definition NameAgeModel_cls :: "NameAgeModel output_model" where
  "NameAgeModel_cls =
     \<lparr>schema_name = ''NameAgeModel'',
      schema_doc = None,
      model_json_schema = JObj
        [(''properties'', JObj
            [(''name'', JObj [(''title'', JStr ''Name''), (''type'', JStr ''string'')]),
             (''age'', JObj [(''title'', JStr ''Age''), (''type'', JStr ''integer'')])]),
         (''required'', JList [JStr ''name'', JStr ''age'']),
         (''title'', JStr ''NameAgeModel''),
         (''type'', JStr ''object'')],
      construct = NameAgeModel_init\<rparr>"

section \<open>The output validator\<close>

text \<open>
  \<^verbatim>\<open>StructuredBatchInferer.validate_result\<close>. The function reads nothing of the
  controller but \<^verbatim>\<open>self.output_model\<close>. Only the subscript \<^verbatim>\<open>["input"]\<close> and the call of
  the constructor are inside the \<^verbatim>\<open>try\<close>, whose handler names \<^verbatim>\<open>TypeError\<close> alone; with
  a single block that is no tool call the function falls off its end and returns \<^verbatim>\<open>None\<close>.
\<close>

definition validate_result :: "'a output_model \<Rightarrow> (string \<times> json) list \<Rightarrow> exn + 'a option" where
  "validate_result om result =
     (case dict_get result ''stop_reason'' of
        Inl e \<Rightarrow> Inl e
      | Inr stop_reason \<Rightarrow>
          if stop_reason \<noteq> JStr ''tool_use'' then Inr None
          else
            (case dict_get result ''content'' of
               Inl e \<Rightarrow> Inl e
             | Inr content \<Rightarrow>
                 (case py_len content of
                    Inl e \<Rightarrow> Inl e
                  | Inr n \<Rightarrow>
                      if n \<noteq> 1 then Inr None
                      else
                        (case item0 content of
                           Inl e \<Rightarrow> Inl e
                         | Inr block \<Rightarrow>
                             (case subscript block ''type'' of
                                Inl e \<Rightarrow> Inl e
                              | Inr ty \<Rightarrow>
                                  if ty = JStr ''tool_use'' then
                                    (case (case subscript block ''input'' of
                                             Inl e \<Rightarrow> Inl e
                                           | Inr payload \<Rightarrow> call_kwargs om payload) of
                                       Inl TypeError \<Rightarrow> Inr None
                                     | Inl e \<Rightarrow> Inl e
                                     | Inr output \<Rightarrow> Inr (Some output))
                                  else Inr None)))))"

text \<open>Raw results used below.\<close>

definition result_john_30 :: "(string \<times> json) list" where
  "result_john_30 =
     [(''stop_reason'', JStr ''tool_use''),
      (''content'', JList [JObj [(''type'', JStr ''tool_use''),
                                 (''input'', JObj [(''name'', JStr ''John''), (''age'', JInt 30)])]])]"

definition result_missing_age :: "(string \<times> json) list" where
  "result_missing_age =
     [(''stop_reason'', JStr ''tool_use''),
      (''content'', JList [JObj [(''type'', JStr ''tool_use''),
                                 (''input'', JObj [(''name'', JStr ''John'')])]])]"

definition result_end_turn :: "(string \<times> json) list" where
  "result_end_turn =
     [(''stop_reason'', JStr ''end_turn''),
      (''content'', JList [JObj [(''type'', JStr ''text''), (''text'', JStr ''John is 30'')]])]"

definition two_blocks :: "json list" where
  "two_blocks =
     [JObj [(''type'', JStr ''tool_use''),
            (''input'', JObj [(''name'', JStr ''John''), (''age'', JInt 30)])],
      JObj [(''type'', JStr ''tool_use''),
            (''input'', JObj [(''name'', JStr ''Jane''), (''age'', JInt 31)])]]"

definition result_two_blocks :: "(string \<times> json) list" where
  "result_two_blocks = [(''stop_reason'', JStr ''tool_use''), (''content'', JList two_blocks)]"

definition result_text_block :: "(string \<times> json) list" where
  "result_text_block =
     [(''stop_reason'', JStr ''tool_use''),
      (''content'', JList [JObj [(''type'', JStr ''text''), (''text'', JStr ''John is 30'')]])]"

section \<open>Strings and paths\<close>

text \<open>\<^verbatim>\<open>s.startswith(p)\<close>.\<close>

definition startswith :: "string \<Rightarrow> string \<Rightarrow> bool" where
  "startswith p s = (take (length p) s = p)"

text \<open>\<^verbatim>\<open>s.split(c)\<close> for a separator of one character: never the empty list.\<close>

fun split_on :: "char \<Rightarrow> string \<Rightarrow> string list" where
  "split_on c [] = [[]]"
| "split_on c (x # xs) =
     (if x = c then [] # split_on c xs
      else (case split_on c xs of [] \<Rightarrow> [[x]] | y # ys \<Rightarrow> (x # y) # ys))"

text \<open>\<^verbatim>\<open>s.rfind(c)\<close>: the index of the last occurrence, or \<open>-1\<close>.\<close>

definition rfind :: "char \<Rightarrow> string \<Rightarrow> int" where
  "rfind c s =
     (if c \<in> set s then int (length s) - 1 - int (length (takeWhile (\<lambda>x. x \<noteq> c) (rev s)))
      else - 1)"

text \<open>
  \<^verbatim>\<open>os.path.splitext\<close> on a POSIX path: the extension starts at the last dot of the last
  component, unless only dots precede it there.
\<close>

definition splitext :: "string \<Rightarrow> string \<times> string" where
  "splitext p =
     (let sepIndex = rfind CHR ''/'' p; dotIndex = rfind CHR ''.'' p
      in if sepIndex < dotIndex
            \<and> list_ex (\<lambda>x. x \<noteq> CHR ''.'')
                 (take (nat (dotIndex - (sepIndex + 1))) (drop (nat (sepIndex + 1)) p))
         then (take (nat dotIndex) p, drop (nat dotIndex) p)
         else (p, []))"

text \<open>Truth value of a Python value, as \<^verbatim>\<open>if v:\<close> tests it.\<close>

fun truthy :: "json \<Rightarrow> bool" where
  "truthy JNull = False"
| "truthy (JBool b) = b"
| "truthy (JInt i) = (i \<noteq> 0)"
| "truthy (JFloat r) = (r \<noteq> 0)"
| "truthy (JStr s) = (s \<noteq> [])"
| "truthy (JList xs) = (xs \<noteq> [])"
| "truthy (JObj d) = (d \<noteq> [])"

section \<open>Model inputs\<close>

text \<open>
  A sampling parameter is annotated \<^verbatim>\<open>float\<close>, and an integer given for it (the source's
  own example passes \<^verbatim>\<open>temperature=1\<close>) is kept as an integer.
\<close>

datatype number = IntNum int | FloatNum real

fun number_json :: "number \<Rightarrow> json" where
  "number_json (IntNum i) = JInt i"
| "number_json (FloatNum r) = JFloat r"

record ToolChoice =
  tc_type :: string
  tc_name :: "string option"

record ModelInput =
  messages :: "json list"
  anthropic_version :: string
  max_tokens :: int
  system :: "string option"
  stop_sequences :: "string list option"
  temperature :: "number option"
  top_p :: "number option"
  top_k :: "int option"
  tools :: "json list option"
  tool_choice :: "ToolChoice option"

text \<open>The defaults of the dataclass: only \<^verbatim>\<open>messages\<close> is required.\<close>

definition ModelInput_of :: "json list \<Rightarrow> ModelInput" where
  "ModelInput_of msgs =
     \<lparr>messages = msgs, anthropic_version = ''bedrock-2023-05-31'', max_tokens = 2000,
      system = None, stop_sequences = None, temperature = None, top_p = None, top_k = None,
      tools = None, tool_choice = None\<rparr>"

definition opt_item :: "string \<Rightarrow> json option \<Rightarrow> (string \<times> json) list" where
  "opt_item k v = (case v of None \<Rightarrow> [] | Some x \<Rightarrow> [(k, x)])"

text \<open>\<^verbatim>\<open>ToolChoice.__dict__\<close>: both fields, the name also when it is \<^verbatim>\<open>None\<close>.\<close>

definition ToolChoice_dict :: "ToolChoice \<Rightarrow> json" where
  "ToolChoice_dict tc =
     JObj [(''type'', JStr (tc_type tc)),
           (''name'', (case tc_name tc of None \<Rightarrow> JNull | Some n \<Rightarrow> JStr n))]"

text \<open>
  \<^verbatim>\<open>ModelInput.to_dict\<close>: the fields that are not \<^verbatim>\<open>None\<close>, in the order of the
  dataclass, the tool choice replaced by its \<^verbatim>\<open>__dict__\<close>.
\<close>

definition to_dict :: "ModelInput \<Rightarrow> (string \<times> json) list" where
  "to_dict mi =
     [(''messages'', JList (messages mi)),
      (''anthropic_version'', JStr (anthropic_version mi)),
      (''max_tokens'', JInt (max_tokens mi))]
     @ opt_item ''system'' (map_option JStr (system mi))
     @ opt_item ''stop_sequences'' (map_option (\<lambda>ss. JList (map JStr ss)) (stop_sequences mi))
     @ opt_item ''temperature'' (map_option number_json (temperature mi))
     @ opt_item ''top_p'' (map_option number_json (top_p mi))
     @ opt_item ''top_k'' (map_option JInt (top_k mi))
     @ opt_item ''tools'' (map_option JList (tools mi))
     @ opt_item ''tool_choice'' (map_option ToolChoice_dict (tool_choice mi))"

section \<open>The environment\<close>

text \<open>
  What \<^verbatim>\<open>get_model_invocation_job\<close> answers, as far as the code reads it. A field is
  \<open>None\<close> when its key is absent from the response, so that reading it raises
  \<^verbatim>\<open>KeyError\<close>; \<open>s3Uri\<close> stands for
  \<^verbatim>\<open>response["inputDataConfig"]["s3InputDataConfig"]["s3Uri"]\<close>, \<open>HTTPStatusCode\<close> for
  \<^verbatim>\<open>response["ResponseMetadata"]["HTTPStatusCode"]\<close>.
\<close>

record job_details =
  HTTPStatusCode :: "int option"
  jobName :: "string option"
  modelId :: "string option"
  s3Uri :: "string option"
  roleArn :: "string option"
  status :: "string option"

text \<open>A line-delimited JSON file: what \<^verbatim>\<open>json.loads\<close> makes of each stripped line.\<close>

type_synonym jsonl = "(exn + json) list"

text \<open>
  The collaborators of the controller: the process environment, the object store, the
  identity service, the batch job service and the local file system. The job service
  answers its \<open>n\<close>-th status query for a region and a job identifier with
  \<open>job_replies n region identifier\<close>, and \<open>job_queries\<close> records the queries issued so
  far; \<open>uuid4\<close> is the text of the next random identifier.
\<close>

record world =
  AWS_PROFILE :: "string option"
  s3_head_bucket :: "string \<Rightarrow> exn + unit"
  s3_get_bucket_location :: "string \<Rightarrow> exn + json"
  s3_download :: "string \<Rightarrow> string \<Rightarrow> exn + jsonl"
  iam_get_role :: "string \<Rightarrow> exn + unit"
  job_replies :: "nat \<Rightarrow> string \<Rightarrow> string option \<Rightarrow> exn + job_details"
  job_queries :: "(string \<times> string option) list"
  files :: "string \<Rightarrow> jsonl option"
  uuid4 :: string

text \<open>\<^verbatim>\<open>client.get_model_invocation_job(jobIdentifier=...)\<close> on a client of a region.\<close>

definition get_model_invocation_job ::
  "world \<Rightarrow> string \<Rightarrow> string option \<Rightarrow> (exn + job_details) \<times> world" where
  "get_model_invocation_job w rg ident =
     (job_replies w (length (job_queries w)) rg ident,
      w\<lparr>job_queries := job_queries w @ [(rg, ident)]\<rparr>)"

text \<open>\<^verbatim>\<open>s3_client.download_file(Bucket, Key, Filename)\<close>.\<close>

definition download_file :: "world \<Rightarrow> string \<Rightarrow> string \<Rightarrow> string \<Rightarrow> (exn + unit) \<times> world" where
  "download_file w bucket key filename =
     (case s3_download w bucket key of
        Inl e \<Rightarrow> (Inl e, w)
      | Inr content \<Rightarrow> (Inr (), w\<lparr>files := (files w)(filename \<mapsto> content)\<rparr>))"

text \<open>\<^verbatim>\<open>_read_jsonl\<close>: the first line that does not parse raises.\<close>

fun parse_lines :: "jsonl \<Rightarrow> exn + json list" where
  "parse_lines [] = Inr []"
| "parse_lines (Inl e # ls) = Inl e"
| "parse_lines (Inr v # ls) = (case parse_lines ls of Inl e \<Rightarrow> Inl e | Inr vs \<Rightarrow> Inr (v # vs))"

definition read_jsonl :: "world \<Rightarrow> string \<Rightarrow> exn + json list" where
  "read_jsonl w file_path =
     (case files w file_path of None \<Rightarrow> Inl FileNotFoundError | Some ls \<Rightarrow> parse_lines ls)"

section \<open>The controller\<close>

record Manifest =
  totalRecordCount :: int
  processedRecordCount :: int
  successRecordCount :: int
  errorRecordCount :: int
  inputTokenCount :: "int option"
  outputTokenCount :: "int option"

text \<open>
  The fields of \<^verbatim>\<open>BatchInferer\<close>, without the handles \<^verbatim>\<open>session\<close> and \<^verbatim>\<open>client\<close>, which
  are the environment.
\<close>

record BatchInferer =
  model_name :: string
  time_out_duration_hours :: int
  bucket_name :: string
  bucket_uri :: string
  job_name :: string
  file_name :: string
  output_file_name :: "string option"
  manifest_file_name :: "string option"
  role_arn :: string
  region :: string
  job_arn :: "string option"
  job_status :: "string option"
  results :: "json list option"
  manifest :: "Manifest option"
  requests :: "json list option"

definition VALID_FINISHED_STATUSES :: "string list" where
  "VALID_FINISHED_STATUSES = [''Completed'', ''Failed'', ''Stopped'', ''Expired'']"

text \<open>\<^verbatim>\<open>v in VALID_FINISHED_STATUSES\<close> for a status that may be \<^verbatim>\<open>None\<close>.\<close>

definition finished :: "string option \<Rightarrow> bool" where
  "finished st = (case st of None \<Rightarrow> False | Some s \<Rightarrow> s \<in> set VALID_FINISHED_STATUSES)"

subsection \<open>Construction\<close>

definition get_bucket_location :: "world \<Rightarrow> string \<Rightarrow> exn + json" where
  "get_bucket_location w bucket =
     (case s3_get_bucket_location w bucket of
        Inl (ClientError c) \<Rightarrow> Inl ValueError
      | Inl e \<Rightarrow> Inl e
      | Inr response \<Rightarrow>
          if truthy response then
            (case subscript response ''LocationConstraint'' of
               Inl e \<Rightarrow> Inl e
             | Inr rg \<Rightarrow> Inr (if truthy rg then rg else JStr ''us-east-1''))
          else Inr JNull)"

definition check_bucket :: "world \<Rightarrow> string \<Rightarrow> string \<Rightarrow> exn + unit" where
  "check_bucket w bucket rg =
     (case s3_head_bucket w bucket of
        Inl (ClientError c) \<Rightarrow> Inl ValueError
      | Inl e \<Rightarrow> Inl e
      | Inr u \<Rightarrow>
          (case get_bucket_location w bucket of
             Inl e \<Rightarrow> Inl e
           | Inr bucket_region \<Rightarrow>
               if bucket_region \<noteq> JStr rg then Inl ValueError else Inr ()))"

definition check_for_profile :: "world \<Rightarrow> exn + unit" where
  "check_for_profile w =
     (case AWS_PROFILE w of
        None \<Rightarrow> Inl KeyError
      | Some p \<Rightarrow> if p = [] then Inl KeyError else Inr ())"

definition check_arn :: "world \<Rightarrow> string \<Rightarrow> exn + bool" where
  "check_arn w arn =
     (if \<not> startswith ''arn:aws:iam::'' arn then Inl ValueError
      else
        (case iam_get_role w (last (split_on CHR ''/'' arn)) of
           Inl (ClientError c) \<Rightarrow>
             if c = ''NoSuchEntity'' then Inl ValueError else Inl (ClientError c)
         | Inl e \<Rightarrow> Inl e
         | Inr u \<Rightarrow> Inr True))"

text \<open>
  \<^verbatim>\<open>BatchInferer.__init__\<close>. The checks only query the environment. The file name is
  built from the argument, not from the name stored one line above it.
\<close>

definition BatchInferer_init ::
  "world \<Rightarrow> string \<Rightarrow> string \<Rightarrow> string \<Rightarrow> string \<Rightarrow> string \<Rightarrow> int \<Rightarrow> exn + BatchInferer" where
  "BatchInferer_init w model_name' bucket_name' region' job_name' role_arn' hours =
     (case check_bucket w bucket_name' region' of
        Inl e \<Rightarrow> Inl e
      | Inr u \<Rightarrow>
          (case check_for_profile w of
             Inl e \<Rightarrow> Inl e
           | Inr u' \<Rightarrow>
               (case check_arn w role_arn' of
                  Inl e \<Rightarrow> Inl e
                | Inr ok \<Rightarrow>
                    Inr \<lparr>model_name = model_name',
                         time_out_duration_hours = hours,
                         bucket_name = bucket_name',
                         bucket_uri = ''s3://'' @ bucket_name',
                         job_name = (if job_name' \<noteq> [] then job_name'
                                     else ''batch_inference_'' @ take 6 (uuid4 w)),
                         file_name = job_name' @ ''.jsonl'',
                         output_file_name = None,
                         manifest_file_name = None,
                         role_arn = role_arn',
                         region = region',
                         job_arn = None,
                         job_status = None,
                         results = None,
                         manifest = None,
                         requests = None\<rparr>)))"

subsection \<open>Preparing the batch\<close>

text \<open>
  \<^verbatim>\<open>BatchInferer.prepare_requests\<close>. The mapping is an association list in the order of
  \<^verbatim>\<open>inputs.items()\<close>. Like every method below, the model maps the controller and the
  environment to the outcome, the controller and the environment.
\<close>

definition batch_record :: "string \<times> ModelInput \<Rightarrow> json" where
  "batch_record item =
     JObj [(''recordId'', JStr (fst item)), (''modelInput'', JObj (to_dict (snd item)))]"

definition prepare_requests ::
  "'z BatchInferer_scheme \<Rightarrow> world \<Rightarrow> (string \<times> ModelInput) list
     \<Rightarrow> (exn + unit) \<times> 'z BatchInferer_scheme \<times> world" where
  "prepare_requests self w inputs =
     (if length inputs < 100 then (Inl ValueError, self, w)
      else (Inr (), self\<lparr>requests := Some (map batch_record inputs)\<rparr>, w))"

subsection \<open>Status\<close>

text \<open>\<^verbatim>\<open>BatchInferer.check_complete\<close>.\<close>

definition check_complete ::
  "'z BatchInferer_scheme \<Rightarrow> world \<Rightarrow> (exn + string option) \<times> 'z BatchInferer_scheme \<times> world" where
  "check_complete self w =
     (if \<not> finished (job_status self) then
        (case get_model_invocation_job w (region self) (job_arn self) of
           (Inl e, w') \<Rightarrow> (Inl e, self, w')
         | (Inr response, w') \<Rightarrow>
             (case status response of
                None \<Rightarrow> (Inl KeyError, self, w')
              | Some st \<Rightarrow>
                  (let self' = self\<lparr>job_status := Some st\<rparr>
                   in if finished (job_status self') then (Inr (job_status self'), self', w')
                      else (Inr None, self', w'))))
      else (Inr (job_status self), self, w))"

text \<open>A caller that checks the status \<open>n\<close> times in a row and collects the outcomes.\<close>

fun check_complete_times ::
  "nat \<Rightarrow> 'z BatchInferer_scheme \<Rightarrow> world
     \<Rightarrow> (exn + string option) list \<times> 'z BatchInferer_scheme \<times> world" where
  "check_complete_times 0 self w = ([], self, w)"
| "check_complete_times (Suc n) self w =
     (case check_complete self w of
        (r, self', w') \<Rightarrow>
          (case check_complete_times n self' w' of
             (rs, self'', w'') \<Rightarrow> (r # rs, self'', w'')))"

subsection \<open>Download\<close>

text \<open>The property \<^verbatim>\<open>unique_id_from_arn\<close>.\<close>

definition unique_id_from_arn :: "'z BatchInferer_scheme \<Rightarrow> exn + string" where
  "unique_id_from_arn self =
     (case job_arn self of
        None \<Rightarrow> Inl ValueError
      | Some arn \<Rightarrow> if arn = [] then Inl ValueError else Inr (last (split_on CHR ''/'' arn)))"

text \<open>
  \<^verbatim>\<open>BatchInferer.download_results\<close>. When the status check does not return a finished
  status, the \<^verbatim>\<open>else\<close> branch only logs.
\<close>

definition download_results ::
  "'z BatchInferer_scheme \<Rightarrow> world \<Rightarrow> (exn + unit) \<times> 'z BatchInferer_scheme \<times> world" where
  "download_results self w =
     (case check_complete self w of
        (Inl e, self1, w1) \<Rightarrow> (Inl e, self1, w1)
      | (Inr st, self1, w1) \<Rightarrow>
          if finished st then
            (case splitext (file_name self1) of
               (file_name', ext) \<Rightarrow>
                 (let out_name = file_name' @ ''_out'' @ ext;
                      manifest_name = file_name' @ ''_manifest'' @ ext;
                      self2 = self1\<lparr>output_file_name := Some out_name,
                                     manifest_file_name := Some manifest_name\<rparr>
                  in (case unique_id_from_arn self2 of
                        Inl e \<Rightarrow> (Inl e, self2, w1)
                      | Inr uid \<Rightarrow>
                          (case download_file w1 (bucket_name self2)
                                  (''output/'' @ uid @ ''/'' @ file_name self2 @ ''.out'') out_name of
                             (Inl e, w2) \<Rightarrow> (Inl e, self2, w2)
                           | (Inr u, w2) \<Rightarrow>
                               (case download_file w2 (bucket_name self2)
                                       (''output/'' @ uid @ ''/manifest.json.out'') manifest_name of
                                  (Inl e, w3) \<Rightarrow> (Inl e, self2, w3)
                                | (Inr u', w3) \<Rightarrow> (Inr (), self2, w3))))))
          else (Inr (), self1, w1))"

subsection \<open>Recovery\<close>

text \<open>\<^verbatim>\<open>BatchInferer.check_for_existing_job\<close>.\<close>

definition check_for_existing_job ::
  "world \<Rightarrow> string \<Rightarrow> string \<Rightarrow> (exn + job_details) \<times> world" where
  "check_for_existing_job w arn rg =
     (if \<not> startswith ''arn:aws:bedrock:'' arn then (Inl ValueError, w)
      else
        (case get_model_invocation_job w rg (Some arn) of
           (Inl (ClientError c), w') \<Rightarrow>
             (Inl (if c = ''ResourceNotFoundException'' then ValueError else RuntimeError), w')
         | (Inl e, w') \<Rightarrow> (Inl e, w')
         | (Inr response, w') \<Rightarrow>
             (case HTTPStatusCode response of
                None \<Rightarrow> (Inl KeyError, w')
              | Some code \<Rightarrow>
                  if code \<noteq> 200 then (Inl RuntimeError, w') else (Inr response, w'))))"

text \<open>
  The body of the \<^verbatim>\<open>try\<close> of \<^verbatim>\<open>BatchInferer.recover_details_from_job_arn\<close>, in the order
  of the source: the status is read last, after the controller is constructed.
\<close>

definition recover_from_response ::
  "world \<Rightarrow> job_details \<Rightarrow> string \<Rightarrow> string \<Rightarrow> exn + BatchInferer" where
  "recover_from_response w response arn rg =
     (case jobName response of
        None \<Rightarrow> Inl KeyError
      | Some job_name' \<Rightarrow>
     (case modelId response of
        None \<Rightarrow> Inl KeyError
      | Some model_id \<Rightarrow>
     (case s3Uri response of
        None \<Rightarrow> Inl KeyError
      | Some uri \<Rightarrow>
          if length (split_on CHR ''/'' uri) \<le> 2 then Inl IndexError
          else
     (case roleArn response of
        None \<Rightarrow> Inl KeyError
      | Some role_arn' \<Rightarrow>
          if files w (job_name' @ ''.jsonl'') = None then Inl FileNotFoundError
          else
     (case read_jsonl w (job_name' @ ''.jsonl'') of
        Inl e \<Rightarrow> Inl e
      | Inr reqs \<Rightarrow>
     (case BatchInferer_init w model_id (split_on CHR ''/'' uri ! 2) rg job_name' role_arn' 24 of
        Inl e \<Rightarrow> Inl e
      | Inr bi \<Rightarrow>
     (case status response of
        None \<Rightarrow> Inl KeyError
      | Some st \<Rightarrow>
          Inr (bi\<lparr>job_arn := Some arn, requests := Some reqs, job_status := Some st\<rparr>))))))))"

text \<open>
  \<^verbatim>\<open>BatchInferer.recover_details_from_job_arn\<close>: the first handler turns \<^verbatim>\<open>KeyError\<close>
  and \<^verbatim>\<open>IndexError\<close> into \<^verbatim>\<open>ValueError\<close>, the second every other exception into
  \<^verbatim>\<open>RuntimeError\<close>; what \<^verbatim>\<open>check_for_existing_job\<close> raises is outside the \<^verbatim>\<open>try\<close>.
\<close>

definition recover_details_from_job_arn ::
  "world \<Rightarrow> string \<Rightarrow> string \<Rightarrow> (exn + BatchInferer) \<times> world" where
  "recover_details_from_job_arn w arn rg =
     (case check_for_existing_job w arn rg of
        (Inl e, w') \<Rightarrow> (Inl e, w')
      | (Inr response, w') \<Rightarrow>
          (case recover_from_response w' response arn rg of
             Inl e \<Rightarrow> (Inl (if e = KeyError \<or> e = IndexError then ValueError else RuntimeError), w')
           | Inr bi \<Rightarrow> (Inr bi, w')))"

section \<open>The structured controller\<close>

text \<open>
  \<^verbatim>\<open>StructuredBatchInferer\<close> extends \<^verbatim>\<open>BatchInferer\<close> by the schema and the tool built
  from it.
\<close>

record 'a StructuredBatchInferer = BatchInferer +
  output_model :: "'a output_model"
  tool :: json

text \<open>\<^verbatim>\<open>_build_tool\<close>: an absent or empty docstring gives the default description.\<close>

definition build_tool :: "'a output_model \<Rightarrow> json" where
  "build_tool om =
     JObj [(''name'', JStr (schema_name om)),
           (''description'',
              JStr (case schema_doc om of
                      None \<Rightarrow> ''please fill in the schema''
                    | Some d \<Rightarrow> if d = [] then ''please fill in the schema'' else d)),
           (''input_schema'', model_json_schema om)]"

text \<open>\<^verbatim>\<open>StructuredBatchInferer.__init__\<close>.\<close>

definition StructuredBatchInferer_init ::
  "world \<Rightarrow> 'a output_model \<Rightarrow> string \<Rightarrow> string \<Rightarrow> string \<Rightarrow> string \<Rightarrow> string \<Rightarrow> int
     \<Rightarrow> exn + 'a StructuredBatchInferer" where
  "StructuredBatchInferer_init w om model_name' bucket_name' region' job_name' role_arn' hours =
     (case BatchInferer_init w model_name' bucket_name' region' job_name' role_arn' hours of
        Inl e \<Rightarrow> Inl e
      | Inr b \<Rightarrow> Inr (BatchInferer.extend b (StructuredBatchInferer.fields om (build_tool om))))"

text \<open>
  \<^verbatim>\<open>_add_tool_to_model_input\<close>: two assignments to the model input. The source assigns
  in place and returns the same object; both assignments do not depend on the old
  values, so a model input shared by several identifiers gets the same fields.
\<close>

definition add_tool_to_model_input ::
  "('a, 'z) StructuredBatchInferer_scheme \<Rightarrow> ModelInput \<Rightarrow> ModelInput" where
  "add_tool_to_model_input self model_input =
     model_input
       \<lparr>tools := Some [tool self],
        tool_choice := Some \<lparr>tc_type = ''tool'', tc_name = Some (schema_name (output_model self))\<rparr>\<rparr>"

text \<open>\<^verbatim>\<open>StructuredBatchInferer.prepare_requests\<close>.\<close>

definition structured_prepare_requests ::
  "('a, 'z) StructuredBatchInferer_scheme \<Rightarrow> world \<Rightarrow> (string \<times> ModelInput) list
     \<Rightarrow> (exn + unit) \<times> ('a, 'z) StructuredBatchInferer_scheme \<times> world" where
  "structured_prepare_requests self w inputs =
     prepare_requests self w
       (map (\<lambda>item. (fst item, add_tool_to_model_input self (snd item))) inputs)"

text \<open>
  \<^verbatim>\<open>StructuredBatchInferer.recover_details_from_job_arn\<close>: the override is a single
  \<^verbatim>\<open>raise TypeError\<close>.
\<close>

definition structured_recover_details_from_job_arn ::
  "world \<Rightarrow> string \<Rightarrow> string \<Rightarrow> (exn + 'a StructuredBatchInferer) \<times> world" where
  "structured_recover_details_from_job_arn w arn rg = (Inl TypeError, w)"

section \<open>Example data\<close>

definition arn0 :: string where
  "arn0 = ''arn:aws:bedrock:eu-west-2:123456789012:model-invocation-job/x3ddw33feqwu''"

definition details0 :: "string \<Rightarrow> job_details" where
  "details0 st =
     \<lparr>HTTPStatusCode = Some 200,
      jobName = Some ''job-1'',
      modelId = Some ''anthropic.claude-3-haiku-20240307-v1:0'',
      s3Uri = Some ''s3://my-inference-bucket/input/job-1.jsonl'',
      roleArn = Some ''arn:aws:iam::123456789012:role/BedrockBatchRole'',
      status = Some st\<rparr>"

definition hello :: ModelInput where
  "hello = ModelInput_of [JObj [(''role'', JStr ''user''), (''content'', JStr ''Hello'')]]"

text \<open>
  An environment in which the preflight checks pass, the submission artifact of
  \<^verbatim>\<open>job-1\<close> is on disk, and the job service reports \<^verbatim>\<open>InProgress\<close> to every query.
\<close>

definition world0 :: world where
  "world0 =
     \<lparr>AWS_PROFILE = Some ''default'',
      s3_head_bucket = (\<lambda>b. Inr ()),
      s3_get_bucket_location = (\<lambda>b. Inr (JObj [(''LocationConstraint'', JStr ''eu-west-2'')])),
      s3_download = (\<lambda>b k. Inl (ClientError ''404'')),
      iam_get_role = (\<lambda>r. Inr ()),
      job_replies = (\<lambda>n rg ident. Inr (details0 ''InProgress'')),
      job_queries = [],
      files = [''job-1.jsonl'' \<mapsto> [Inr (batch_record (''001'', hello))]],
      uuid4 = ''0f8fad5b-d9cb-469f-a165-70867728950e''\<rparr>"

text \<open>A controller whose job was created and whose status was never queried.\<close>

definition running0 :: BatchInferer where
  "running0 =
     \<lparr>model_name = ''anthropic.claude-3-haiku-20240307-v1:0'',
      time_out_duration_hours = 24,
      bucket_name = ''my-inference-bucket'',
      bucket_uri = ''s3://my-inference-bucket'',
      job_name = ''job-1'',
      file_name = ''job-1.jsonl'',
      output_file_name = None,
      manifest_file_name = None,
      role_arn = ''arn:aws:iam::123456789012:role/BedrockBatchRole'',
      region = ''eu-west-2'',
      job_arn = Some arn0,
      job_status = None,
      results = None,
      manifest = None,
      requests = Some [batch_record (''001'', hello)]\<rparr>"

text \<open>A structured controller for the schema of the source, and a model input that
  already carries a tool.\<close>

definition structured0 :: "NameAgeModel StructuredBatchInferer" where
  "structured0 =
     BatchInferer.extend (running0\<lparr>job_arn := None, requests := None\<rparr>)
       (StructuredBatchInferer.fields NameAgeModel_cls (build_tool NameAgeModel_cls))"

definition calculator :: json where
  "calculator =
     JObj [(''name'', JStr ''calculator''),
           (''description'', JStr ''adds two numbers''),
           (''input_schema'', JObj [(''type'', JStr ''object'')])]"

definition hello_with_tool :: ModelInput where
  "hello_with_tool = hello\<lparr>tools := Some [calculator]\<rparr>"

text \<open>
  The identifiers \<^verbatim>\<open>f"{i:03}"\<close> of the example of the source: the decimal digits of
  \<open>i\<close>, padded with zeros to three characters; and two batches.
\<close>

fun decimal :: "nat \<Rightarrow> string" where
  "decimal n =
     (if n < 10 then [''0123456789'' ! n]
      else decimal (n div 10) @ [''0123456789'' ! (n mod 10)])"

definition record_id :: "nat \<Rightarrow> string" where
  "record_id i = replicate (3 - length (decimal i)) CHR ''0'' @ decimal i"

definition inputs_2 :: "(string \<times> ModelInput) list" where
  "inputs_2 = [(''001'', hello), (''002'', hello)]"

definition inputs_100 :: "(string \<times> ModelInput) list" where
  "inputs_100 = map (\<lambda>i. (record_id i, hello)) [0..<100]"

text \<open>The tools of a model input, none when the field is \<^verbatim>\<open>None\<close>.\<close>

definition tool_list :: "ModelInput \<Rightarrow> json list" where
  "tool_list mi = (case tools mi of None \<Rightarrow> [] | Some ts \<Rightarrow> ts)"

section \<open>Properties of the output validator\<close>

text \<open>The example of the docstring: a conforming payload is validated.\<close>

lemma validate_result_john_30:
  "validate_result NameAgeModel_cls result_john_30 = Inr (Some \<lparr>name = ''John'', age = 30\<rparr>)"
  by (simp add: validate_result_def result_john_30_def dict_get_def NameAgeModel_cls_def
      NameAgeModel_init_def)

text \<open>The constructor on payloads that lax mode accepts, and on one it does not.\<close>

lemma NameAgeModel_init_examples:
  "NameAgeModel_init [(''name'', JStr ''John''), (''age'', JStr ''30'')]
     = Inr \<lparr>name = ''John'', age = 30\<rparr>"
  "NameAgeModel_init [(''name'', JStr ''John''), (''age'', JBool True)]
     = Inr \<lparr>name = ''John'', age = 1\<rparr>"
  "NameAgeModel_init [(''name'', JStr ''John''), (''age'', JFloat 30)]
     = Inr \<lparr>name = ''John'', age = 30\<rparr>"
  "NameAgeModel_init [(''name'', JStr ''John''), (''age'', JStr ''thirty'')]
     = Inl ValidationError"
  "NameAgeModel_init [(''name'', JInt 7), (''age'', JInt 30)] = Inl ValidationError"
  by (simp_all add: NameAgeModel_init_def str_as_int_def digit_of_def)

text \<open>
  Claim C1 (the validator never raises; a payload that does not match the schema gives
  \<^verbatim>\<open>None\<close>). The code does not do this: for the schema \<^verbatim>\<open>NameAgeModel\<close> and a tool call
  whose payload lacks \<^verbatim>\<open>age\<close>, the constructor raises pydantic's \<^verbatim>\<open>ValidationError\<close>,
  which the handler for \<^verbatim>\<open>TypeError\<close> does not catch, so \<^verbatim>\<open>validate_result\<close> raises it.
\<close>

theorem validate_result_field_mismatch_raises:
  "validate_result NameAgeModel_cls result_missing_age = Inl ValidationError"
  by (simp add: validate_result_def result_missing_age_def dict_get_def NameAgeModel_cls_def
      NameAgeModel_init_def)

text \<open>
  In general, whatever the constructor raises on the payload of a single tool call is
  raised by the validator, unless it is \<^verbatim>\<open>TypeError\<close>.
\<close>

lemma validate_result_propagates:
  assumes "dict_get result ''stop_reason'' = Inr (JStr ''tool_use'')"
    and "dict_get result ''content'' = Inr (JList [JObj block])"
    and "dict_get block ''type'' = Inr (JStr ''tool_use'')"
    and "dict_get block ''input'' = Inr (JObj payload)"
    and "construct om payload = Inl e"
  shows "validate_result om result = (if e = TypeError then Inr None else Inl e)"
  using assms by (cases e) (simp_all add: validate_result_def)

text \<open>
  Claim C9: for a raw result with a stop reason, (a) if the stop reason is not
  \<^verbatim>\<open>"tool_use"\<close> the validator returns \<^verbatim>\<open>None\<close>, and (b) if the content is a list of more
  than one block the validator returns \<^verbatim>\<open>None\<close>, whatever the schema is.
\<close>

theorem validate_result_absent:
  assumes "dict_get result ''stop_reason'' = Inr stop_reason"
  shows "(stop_reason \<noteq> JStr ''tool_use'' \<longrightarrow> validate_result om result = Inr None)
       \<and> (dict_get result ''content'' = Inr (JList blocks) \<and> 1 < length blocks
            \<longrightarrow> validate_result om result = Inr None)"
  using assms by (simp add: validate_result_def)

theorem validate_result_absent_witness:
  "validate_result NameAgeModel_cls result_end_turn = Inr None
   \<and> validate_result NameAgeModel_cls result_two_blocks = Inr None"
proof -
  have a: "dict_get result_end_turn ''stop_reason'' = Inr (JStr ''end_turn'')"
    by (simp add: result_end_turn_def dict_get_def)
  have b: "dict_get result_two_blocks ''stop_reason'' = Inr (JStr ''tool_use'')"
    by (simp add: result_two_blocks_def dict_get_def)
  have c: "dict_get result_two_blocks ''content'' = Inr (JList two_blocks)"
    by (simp add: result_two_blocks_def dict_get_def)
  have d: "1 < length two_blocks"
    by (simp add: two_blocks_def)
  from validate_result_absent [OF a, where om = NameAgeModel_cls]
  have "validate_result NameAgeModel_cls result_end_turn = Inr None" by simp
  moreover
  from validate_result_absent [OF b, where om = NameAgeModel_cls and blocks = two_blocks] c d
  have "validate_result NameAgeModel_cls result_two_blocks = Inr None" by simp
  ultimately show ?thesis by simp
qed

text \<open>
  Claim C10: a raw result whose stop reason is \<^verbatim>\<open>"tool_use"\<close> and whose content is
  exactly one block with a type other than \<^verbatim>\<open>"tool_use"\<close> is answered with \<^verbatim>\<open>None\<close>: no
  branch returns and nothing is raised.
\<close>

theorem validate_result_non_tool_block:
  assumes "dict_get result ''stop_reason'' = Inr (JStr ''tool_use'')"
    and "dict_get result ''content'' = Inr (JList [block])"
    and "subscript block ''type'' = Inr ty"
    and "ty \<noteq> JStr ''tool_use''"
  shows "validate_result om result = Inr None"
  using assms by (simp add: validate_result_def)

theorem validate_result_non_tool_block_witness:
  "validate_result NameAgeModel_cls result_text_block = Inr None"
proof -
  have a: "dict_get result_text_block ''stop_reason'' = Inr (JStr ''tool_use'')"
    by (simp add: result_text_block_def dict_get_def)
  have b: "dict_get result_text_block ''content''
             = Inr (JList [JObj [(''type'', JStr ''text''), (''text'', JStr ''John is 30'')]])"
    by (simp add: result_text_block_def dict_get_def)
  have c: "subscript (JObj [(''type'', JStr ''text''), (''text'', JStr ''John is 30'')]) ''type''
             = Inr (JStr ''text'')"
    by (simp add: dict_get_def)
  have d: "JStr ''text'' \<noteq> JStr ''tool_use''" by simp
  show ?thesis by (rule validate_result_non_tool_block [OF a b c d])
qed

section \<open>Properties of the string helpers\<close>

text \<open>A split is never empty, so its last element, \<^verbatim>\<open>s.split("/")[-1]\<close>, exists.\<close>

lemma split_on_nonempty: "split_on c s \<noteq> []"
  by (induction s) (auto split: list.splits)

lemma split_on_arn0:
  "split_on CHR ''/'' arn0
     = [''arn:aws:bedrock:eu-west-2:123456789012:model-invocation-job'', ''x3ddw33feqwu'']"
  by (simp add: arn0_def)

lemma replicate_2: "replicate 2 x = [x, x]"
  by (simp add: numeral_2_eq_2)

lemma record_id_examples:
  "record_id 7 = ''007''" "record_id 42 = ''042''" "record_id 1000 = ''1000''"
  by (simp_all add: record_id_def replicate_2)

lemma splitext_examples:
  "splitext ''job-1.jsonl'' = (''job-1'', ''.jsonl'')"
  "splitext ''.jsonl'' = (''.jsonl'', [])"
  "splitext ''a.b/c'' = (''a.b/c'', [])"
  by (simp_all add: splitext_def rfind_def Let_def)

section \<open>Properties of the status check and the download\<close>

lemma check_complete_finished:
  "finished (job_status self) \<Longrightarrow> check_complete self w = (Inr (job_status self), self, w)"
  by (simp add: check_complete_def)

text \<open>
  Claim C2: once the cached status is one of \<^verbatim>\<open>Completed\<close>, \<^verbatim>\<open>Failed\<close>, \<^verbatim>\<open>Stopped\<close>,
  \<^verbatim>\<open>Expired\<close>, any number \<open>n\<close> of calls of \<^verbatim>\<open>check_complete\<close> in a row each return that
  status, and they leave the controller and the environment as they were: the record of
  the status queries issued to the job service does not grow.
\<close>

theorem check_complete_terminal_cached:
  assumes "job_status self = Some st" and "st \<in> set VALID_FINISHED_STATUSES"
  shows "check_complete_times n self w = (replicate n (Inr (Some st)), self, w)
       \<and> job_queries (snd (snd (check_complete_times n self w))) = job_queries w"
proof -
  have fin: "finished (job_status self)" using assms by (simp add: finished_def)
  have "check_complete_times n self w = (replicate n (Inr (Some st)), self, w)"
    by (induction n) (simp_all add: check_complete_finished [OF fin] assms(1))
  then show ?thesis by simp
qed

theorem check_complete_terminal_cached_witness:
  "check_complete_times 3 (running0\<lparr>job_status := Some ''Completed''\<rparr>) world0 =
     ([Inr (Some ''Completed''), Inr (Some ''Completed''), Inr (Some ''Completed'')],
      running0\<lparr>job_status := Some ''Completed''\<rparr>, world0)"
proof -
  have a: "job_status (running0\<lparr>job_status := Some ''Completed''\<rparr>) = Some ''Completed''"
    by simp
  have b: "''Completed'' \<in> set VALID_FINISHED_STATUSES"
    by (simp add: VALID_FINISHED_STATUSES_def)
  have c: "replicate 3 x = [x, x, x]" for x :: "exn + string option"
    by (simp add: numeral_3_eq_3)
  show ?thesis
    using check_complete_terminal_cached [OF a b, of 3 world0] by (simp add: c)
qed

text \<open>
  Claim C4 (a status check that finds the job not finished returns \<^verbatim>\<open>None\<close> and leaves
  the controller, the cached status in particular, as it was). The code does not do
  this: for a controller that never queried and a service that reports
  \<^verbatim>\<open>InProgress\<close>, the call returns \<^verbatim>\<open>None\<close>, and the cached status, \<^verbatim>\<open>None\<close> before the
  call, is \<^verbatim>\<open>InProgress\<close> after it, which is none of the finished statuses that the
  docstring of the class gives as the values of the field.
\<close>

theorem check_complete_caches_running_status:
  "fst (check_complete running0 world0) = Inr None
   \<and> job_status running0 = None
   \<and> job_status (fst (snd (check_complete running0 world0))) = Some ''InProgress''
   \<and> job_status (fst (snd (check_complete running0 world0))) \<noteq> job_status running0
   \<and> ''InProgress'' \<notin> set VALID_FINISHED_STATUSES"
  by (simp add: check_complete_def running0_def world0_def get_model_invocation_job_def
      finished_def VALID_FINISHED_STATUSES_def details0_def)

text \<open>
  In general, when the cached status is not finished and the job service answers the
  query with a status \<open>st\<close> that is not finished, \<^verbatim>\<open>check_complete\<close> returns \<^verbatim>\<open>None\<close>,
  stores \<open>st\<close> as the cached status and changes no other field of the controller; the
  environment records the one query.
\<close>

lemma check_complete_not_terminal:
  assumes "\<not> finished (job_status self)"
    and "job_replies w (length (job_queries w)) (region self) (job_arn self) = Inr response"
    and "status response = Some st"
    and "st \<notin> set VALID_FINISHED_STATUSES"
  shows "check_complete self w =
           (Inr None, self\<lparr>job_status := Some st\<rparr>,
            w\<lparr>job_queries := job_queries w @ [(region self, job_arn self)]\<rparr>)"
  using assms by (simp add: check_complete_def get_model_invocation_job_def finished_def)

lemma check_complete_not_terminal_running0:
  "check_complete running0 world0 =
     (Inr None, running0\<lparr>job_status := Some ''InProgress''\<rparr>,
      world0\<lparr>job_queries := [(''eu-west-2'', Some arn0)]\<rparr>)"
proof -
  have a: "\<not> finished (job_status running0)"
    by (simp add: running0_def finished_def)
  have b: "job_replies world0 (length (job_queries world0)) (region running0) (job_arn running0)
             = Inr (details0 ''InProgress'')"
    by (simp add: world0_def)
  have c: "status (details0 ''InProgress'') = Some ''InProgress''"
    by (simp add: details0_def)
  have d: "''InProgress'' \<notin> set VALID_FINISHED_STATUSES"
    by (simp add: VALID_FINISHED_STATUSES_def)
  have e: "job_queries world0 = []" "region running0 = ''eu-west-2''" "job_arn running0 = Some arn0"
    by (simp_all add: world0_def running0_def)
  show ?thesis
    using check_complete_not_terminal [OF a b c d] by (simp add: e)
qed

text \<open>
  Claim C3 (a download before the job has finished raises). The code does not do this:
  for a controller whose job is reported \<^verbatim>\<open>InProgress\<close>, \<^verbatim>\<open>download_results\<close> returns
  normally; it has cached the status, set no file name and downloaded nothing.
\<close>

theorem download_results_before_terminal_returns:
  "download_results running0 world0 =
     (Inr (), running0\<lparr>job_status := Some ''InProgress''\<rparr>,
      world0\<lparr>job_queries := [(''eu-west-2'', Some arn0)]\<rparr>)"
  by (simp add: download_results_def check_complete_def running0_def world0_def
      get_model_invocation_job_def finished_def VALID_FINISHED_STATUSES_def details0_def)

text \<open>
  In general, whenever the status check returns \<^verbatim>\<open>None\<close>, the download returns normally
  with the controller and the environment the status check left.
\<close>

lemma download_results_not_finished:
  assumes "check_complete self w = (Inr None, self', w')"
  shows "download_results self w = (Inr (), self', w')"
  using assms by (simp add: download_results_def finished_def)

section \<open>Properties of the batch builder and the tool adapter\<close>

text \<open>
  Claim C5: with fewer than 100 entries \<^verbatim>\<open>prepare_requests\<close> raises \<^verbatim>\<open>ValueError\<close> and
  leaves the controller, its stored batch included, and the environment as they were;
  with at least 100 entries it returns normally, leaves the environment as it was and
  stores one record per entry, the \<open>i\<close>-th record pairing the \<open>i\<close>-th identifier with the
  dict of the \<open>i\<close>-th model input.
\<close>

theorem prepare_requests_batch_size:
  "(length inputs < 100 \<longrightarrow> prepare_requests self w inputs = (Inl ValueError, self, w))
   \<and> (100 \<le> length inputs \<longrightarrow>
        prepare_requests self w inputs
          = (Inr (), self\<lparr>requests := Some (map batch_record inputs)\<rparr>, w)
        \<and> length (map batch_record inputs) = length inputs
        \<and> (\<forall>i<length inputs.
              map batch_record inputs ! i
                = JObj [(''recordId'', JStr (fst (inputs ! i))),
                        (''modelInput'', JObj (to_dict (snd (inputs ! i))))]))"
  by (simp add: prepare_requests_def batch_record_def)

theorem prepare_requests_batch_size_witness:
  "prepare_requests running0 world0 inputs_2 = (Inl ValueError, running0, world0)
   \<and> prepare_requests running0 world0 inputs_100
       = (Inr (), running0\<lparr>requests := Some (map batch_record inputs_100)\<rparr>, world0)
   \<and> length (map batch_record inputs_100) = 100
   \<and> map batch_record inputs_100 ! 7
       = JObj [(''recordId'', JStr ''007''), (''modelInput'', JObj (to_dict hello))]"
proof -
  have a: "length inputs_2 < 100" by (simp add: inputs_2_def)
  have b: "100 \<le> length inputs_100" by (simp add: inputs_100_def)
  have c: "length inputs_100 = 100" by (simp add: inputs_100_def)
  have d: "inputs_100 ! 7 = (''007'', hello)" by (simp add: inputs_100_def record_id_def replicate_2)
  from prepare_requests_batch_size [of inputs_2 running0 world0] a
  have 1: "prepare_requests running0 world0 inputs_2 = (Inl ValueError, running0, world0)"
    by simp
  from prepare_requests_batch_size [of inputs_100 running0 world0] b
  have 2: "prepare_requests running0 world0 inputs_100
             = (Inr (), running0\<lparr>requests := Some (map batch_record inputs_100)\<rparr>, world0)"
    and 3: "\<forall>i<length inputs_100.
              map batch_record inputs_100 ! i
                = JObj [(''recordId'', JStr (fst (inputs_100 ! i))),
                        (''modelInput'', JObj (to_dict (snd (inputs_100 ! i))))]"
    by blast+
  from 3 c have "map batch_record inputs_100 ! 7
                = JObj [(''recordId'', JStr (fst (inputs_100 ! 7))),
                        (''modelInput'', JObj (to_dict (snd (inputs_100 ! 7))))]"
    by simp
  with d have 4: "map batch_record inputs_100 ! 7
       = JObj [(''recordId'', JStr ''007''), (''modelInput'', JObj (to_dict hello))]"
    by simp
  from 1 2 4 c show ?thesis by simp
qed

text \<open>
  Claim C6, as stated (the tool is appended and the tools already present remain),
  fails: a model input that carries the tool \<^verbatim>\<open>calculator\<close> no longer carries it after
  the adapter, and its tool list is not the old list followed by the schema's tool.
\<close>

theorem add_tool_drops_existing_tools:
  "calculator \<in> set (tool_list hello_with_tool)
   \<and> calculator \<notin> set (tool_list (add_tool_to_model_input structured0 hello_with_tool))
   \<and> tool_list (add_tool_to_model_input structured0 hello_with_tool)
       \<noteq> tool_list hello_with_tool @ [tool structured0]"
  by (simp add: tool_list_def hello_with_tool_def add_tool_to_model_input_def structured0_def
      calculator_def build_tool_def NameAgeModel_cls_def BatchInferer.extend_def
      StructuredBatchInferer.fields_def)

text \<open>The constructor stores the schema and the tool built from it.\<close>

lemma StructuredBatchInferer_init_tool:
  "StructuredBatchInferer_init w om m b r j ra h = Inr self
     \<Longrightarrow> tool self = build_tool (output_model self) \<and> output_model self = om"
  by (auto simp: StructuredBatchInferer_init_def BatchInferer.extend_def
      StructuredBatchInferer.fields_def split: sum.splits)

lemma dict_get_tools:
  "tools mi = Some ts \<Longrightarrow> dict_get (to_dict mi) ''tools'' = Inr (JList ts)"
  by (simp add: to_dict_def dict_get_def opt_item_def split: option.splits)

lemma dict_get_tool_choice:
  "tool_choice mi = Some tc \<Longrightarrow> dict_get (to_dict mi) ''tool_choice'' = Inr (ToolChoice_dict tc)"
  by (simp add: to_dict_def dict_get_def opt_item_def split: option.splits)

text \<open>
  Claim C6, amended: the adapter sets the tool list of every request to exactly the one
  tool of the controller, whatever the list held before, and sets the tool choice to
  type \<^verbatim>\<open>tool\<close> with the name of the schema, which is the name of that tool when the
  tool is the one built from the schema, as the constructor leaves it; both appear so in
  the dict of the request, and a batch of at least 100 entries stores for every entry
  the record of the model input so changed.
\<close>

theorem add_tool_sets_tools:
  "tools (add_tool_to_model_input self mi) = Some [tool self]
   \<and> tool_choice (add_tool_to_model_input self mi)
       = Some \<lparr>tc_type = ''tool'', tc_name = Some (schema_name (output_model self))\<rparr>
   \<and> dict_get (to_dict (add_tool_to_model_input self mi)) ''tools'' = Inr (JList [tool self])
   \<and> dict_get (to_dict (add_tool_to_model_input self mi)) ''tool_choice''
       = Inr (JObj [(''type'', JStr ''tool''),
                    (''name'', JStr (schema_name (output_model self)))])
   \<and> (tool self = build_tool (output_model self)
        \<longrightarrow> subscript (tool self) ''name'' = Inr (JStr (schema_name (output_model self))))
   \<and> (100 \<le> length inputs \<longrightarrow>
        structured_prepare_requests self w inputs
          = (Inr (),
             self\<lparr>requests := Some (map (\<lambda>item. JObj
                  [(''recordId'', JStr (fst item)),
                   (''modelInput'', JObj (to_dict (add_tool_to_model_input self (snd item))))])
                 inputs)\<rparr>,
             w))"
proof -
  have t: "tools (add_tool_to_model_input self mi) = Some [tool self]"
    by (simp add: add_tool_to_model_input_def)
  have c: "tool_choice (add_tool_to_model_input self mi)
       = Some \<lparr>tc_type = ''tool'', tc_name = Some (schema_name (output_model self))\<rparr>"
    by (simp add: add_tool_to_model_input_def)
  have n: "tool self = build_tool (output_model self)
        \<Longrightarrow> subscript (tool self) ''name'' = Inr (JStr (schema_name (output_model self)))"
    by (simp add: build_tool_def dict_get_def)
  have p: "100 \<le> length inputs \<Longrightarrow>
        structured_prepare_requests self w inputs
          = (Inr (),
             self\<lparr>requests := Some (map (\<lambda>item. JObj
                  [(''recordId'', JStr (fst item)),
                   (''modelInput'', JObj (to_dict (add_tool_to_model_input self (snd item))))])
                 inputs)\<rparr>,
             w)"
    by (simp add: structured_prepare_requests_def prepare_requests_def batch_record_def comp_def)
  show ?thesis
    using t c n p dict_get_tools [OF t] dict_get_tool_choice [OF c]
    by (simp add: ToolChoice_dict_def)
qed

theorem add_tool_sets_tools_witness:
  "tools (add_tool_to_model_input structured0 hello_with_tool) = Some [tool structured0]
   \<and> subscript (tool structured0) ''name'' = Inr (JStr ''NameAgeModel'')
   \<and> fst (structured_prepare_requests structured0 world0 inputs_100) = Inr ()"
proof -
  have a: "tool structured0 = build_tool (output_model structured0)"
    by (simp add: structured0_def BatchInferer.extend_def StructuredBatchInferer.fields_def)
  have b: "100 \<le> length inputs_100"
    by (simp add: inputs_100_def)
  have c: "schema_name (output_model structured0) = ''NameAgeModel''"
    by (simp add: structured0_def BatchInferer.extend_def StructuredBatchInferer.fields_def
        NameAgeModel_cls_def)
  show ?thesis
    using add_tool_sets_tools [of structured0 hello_with_tool inputs_100 world0] a b c
    by simp
qed

section \<open>Properties of recovery\<close>

lemma get_bucket_location_ignores_queries:
  "get_bucket_location (w\<lparr>job_queries := q\<rparr>) b = get_bucket_location w b"
  by (simp add: get_bucket_location_def)

lemma check_bucket_ignores_queries:
  "check_bucket (w\<lparr>job_queries := q\<rparr>) b r = check_bucket w b r"
  by (simp add: check_bucket_def get_bucket_location_ignores_queries cong: sum.case_cong)

lemma check_for_profile_ignores_queries:
  "check_for_profile (w\<lparr>job_queries := q\<rparr>) = check_for_profile w"
  by (simp add: check_for_profile_def)

lemma check_arn_ignores_queries:
  "check_arn (w\<lparr>job_queries := q\<rparr>) ra = check_arn w ra"
  by (simp add: check_arn_def)

lemma init_ignores_queries:
  "BatchInferer_init (w\<lparr>job_queries := q\<rparr>) m b r j ra h = BatchInferer_init w m b r j ra h"
  by (simp add: BatchInferer_init_def check_bucket_ignores_queries
      check_for_profile_ignores_queries check_arn_ignores_queries cong: sum.case_cong)

lemma init_fields:
  assumes "BatchInferer_init w m b r j ra h = Inr bi"
  shows "model_name bi = m"
    and "job_name bi = (if j \<noteq> [] then j else ''batch_inference_'' @ take 6 (uuid4 w))"
    and "file_name bi = j @ ''.jsonl''"
    and "bucket_name bi = b"
    and "role_arn bi = ra"
    and "region bi = r"
  using assms by (auto simp: BatchInferer_init_def split: sum.splits)

lemma parse_lines_Inr: "parse_lines (map Inr reqs) = Inr reqs"
  by (induction reqs) simp_all

text \<open>
  Claim C7: when the identifier has the prefix of a job identifier, the job service
  answers with status code 200 and metadata holding a non-empty job name, a model
  identifier, an input location with a bucket, a role and a status, the file named
  after the job name holds the records \<open>reqs\<close>, and the ordinary construction from
  these parameters succeeds, then recovery returns a controller whose job name, model
  identifier, job identifier and status are those of the metadata and whose batch is
  \<open>reqs\<close>.
\<close>

theorem recover_round_trip:
  assumes "startswith ''arn:aws:bedrock:'' arn"
    and "job_replies w (length (job_queries w)) rg (Some arn) = Inr response"
    and "HTTPStatusCode response = Some 200"
    and "jobName response = Some jn" and "jn \<noteq> []"
    and "modelId response = Some mid"
    and "s3Uri response = Some uri" and "2 < length (split_on CHR ''/'' uri)"
    and "roleArn response = Some ra"
    and "status response = Some st"
    and "files w (jn @ ''.jsonl'') = Some (map Inr reqs)"
    and "BatchInferer_init w mid (split_on CHR ''/'' uri ! 2) rg jn ra 24 = Inr b"
  shows "\<exists>bi w'. recover_details_from_job_arn w arn rg = (Inr bi, w')
           \<and> job_name bi = jn \<and> model_name bi = mid \<and> job_arn bi = Some arn
           \<and> job_status bi = Some st \<and> requests bi = Some reqs"
proof -
  let ?w' = "w\<lparr>job_queries := job_queries w @ [(rg, Some arn)]\<rparr>"
  let ?bi = "b\<lparr>job_arn := Some arn, requests := Some reqs, job_status := Some st\<rparr>"
  have q: "check_for_existing_job w arn rg = (Inr response, ?w')"
    using assms(1-3) by (simp add: check_for_existing_job_def get_model_invocation_job_def)
  have r: "recover_from_response ?w' response arn rg = Inr ?bi"
    using assms(4-12)
    by (simp add: recover_from_response_def read_jsonl_def parse_lines_Inr init_ignores_queries)
  have "recover_details_from_job_arn w arn rg = (Inr ?bi, ?w')"
    by (simp add: recover_details_from_job_arn_def q r)
  moreover have "job_name ?bi = jn" "model_name ?bi = mid"
    using init_fields(1,2) [OF assms(12)] assms(5) by simp_all
  ultimately show ?thesis by simp
qed

theorem recover_round_trip_witness:
  "\<exists>bi w'. recover_details_from_job_arn world0 arn0 ''eu-west-2'' = (Inr bi, w')
     \<and> job_name bi = ''job-1''
     \<and> model_name bi = ''anthropic.claude-3-haiku-20240307-v1:0''
     \<and> job_arn bi = Some arn0
     \<and> job_status bi = Some ''InProgress''
     \<and> requests bi = Some [batch_record (''001'', hello)]"
proof -
  have a: "startswith ''arn:aws:bedrock:'' arn0"
    by (simp add: startswith_def arn0_def)
  have b: "job_replies world0 (length (job_queries world0)) ''eu-west-2'' (Some arn0)
             = Inr (details0 ''InProgress'')"
    by (simp add: world0_def)
  have c: "HTTPStatusCode (details0 ''InProgress'') = Some 200"
    "jobName (details0 ''InProgress'') = Some ''job-1''" "''job-1'' \<noteq> []"
    "modelId (details0 ''InProgress'') = Some ''anthropic.claude-3-haiku-20240307-v1:0''"
    "s3Uri (details0 ''InProgress'') = Some ''s3://my-inference-bucket/input/job-1.jsonl''"
    "roleArn (details0 ''InProgress'') = Some ''arn:aws:iam::123456789012:role/BedrockBatchRole''"
    "status (details0 ''InProgress'') = Some ''InProgress''"
    by (simp_all add: details0_def)
  have s: "split_on CHR ''/'' ''s3://my-inference-bucket/input/job-1.jsonl''
             = [''s3:'', '''', ''my-inference-bucket'', ''input'', ''job-1.jsonl'']"
    by simp
  have d: "2 < length (split_on CHR ''/'' ''s3://my-inference-bucket/input/job-1.jsonl'')"
    by (simp only: s) simp
  have e: "files world0 (''job-1'' @ ''.jsonl'') = Some (map Inr [batch_record (''001'', hello)])"
    by (simp add: world0_def)
  have f: "BatchInferer_init world0 ''anthropic.claude-3-haiku-20240307-v1:0''
             (split_on CHR ''/'' ''s3://my-inference-bucket/input/job-1.jsonl'' ! 2) ''eu-west-2''
             ''job-1'' ''arn:aws:iam::123456789012:role/BedrockBatchRole'' 24
           = Inr (running0\<lparr>job_arn := None, requests := None\<rparr>)"
    by (simp only: s)
      (simp add: BatchInferer_init_def check_bucket_def get_bucket_location_def
        check_for_profile_def check_arn_def world0_def running0_def dict_get_def startswith_def)
  show ?thesis
    by (rule recover_round_trip [OF a b c(1) c(2) c(3) c(4) c(5) d c(6) c(7) e f])
qed


text \<open>
  Claim C8: the recovery entry point without a schema, called on the structured
  controller, raises \<^verbatim>\<open>TypeError\<close> for every job identifier, region and environment; it
  returns no controller and issues no query.
\<close>

theorem structured_recover_raises:
  "structured_recover_details_from_job_arn w arn rg = (Inl TypeError, w)"
  by (simp add: structured_recover_details_from_job_arn_def)

end
